theory Spec2Isabelle
  imports Complex_Main "HOL-Library.Word"
begin

section \<open>Data model of foxESS.py\<close>

text \<open>
  The names of variables, units and display names are modelled as \<open>string\<close>, each
  \<open>char\<close> read as the code point of the same number (0 to 255). On that range
  \<open>str.lower\<close> acts character by character: it moves the capital letters A to Z and
  the capital letters of the Latin-1 block (192 to 222, without the multiplication sign
  215) 32 places up and leaves every other character alone. Strings with code points
  above 255 are outside this part of the model.
\<close>

definition lower_char :: "char \<Rightarrow> char" where
  "lower_char c =
     (let n = (of_char c :: nat)
      in if (65 \<le> n \<and> n \<le> 90) \<or> (192 \<le> n \<and> n \<le> 214) \<or> (216 \<le> n \<and> n \<le> 222)
         then char_of (n + 32) else c)"

definition lower :: "string \<Rightarrow> string" where
  "lower s = map lower_char s"

text \<open>
  A Python \<open>float\<close> is an IEEE double: a finite value, given by the rational number it
  denotes (\<open>Fin 0\<close> is the positive zero), the negative zero, an infinity, or NaN. The
  operations below return the double that Python computes when their finite arguments are
  doubles.
\<close>

datatype pyfloat = Fin rat | NegZero | PosInf | NegInf | NaN

text \<open>A value of a data point is what \<open>json.loads\<close> gives for a JSON scalar:
  \<open>None\<close>, a \<open>bool\<close>, an \<open>int\<close>, a \<open>float\<close> or a \<open>str\<close>.\<close>

datatype pyval = PNone | PBool bool | PInt int | PFloat pyfloat | PStr string

text \<open>\<open>class OpenQueryData\<close>; the field \<open>value\<close> is called \<open>val\<close> here, and a
  \<open>unit\<close> that is \<open>None\<close> is \<open>None\<close>.\<close>

record OpenQueryData =
  variable :: string
  val :: pyval
  name :: string
  unit :: "string option"

text \<open>The two fields of \<open>class Device\<close> that \<open>main\<close> reads when it prints.\<close>

record Device =
  station_name :: string
  has_battery :: bool

datatype error = TypeError | ValueError | OverflowError | AttributeError | JSONDecodeError
  | UnicodeEncodeError | ServerError pyval | HTTPError int string | URLError string

text \<open>Sequencing of a computation that may raise.\<close>

definition bind_e :: "error + 'a \<Rightarrow> ('a \<Rightarrow> error + 'b) \<Rightarrow> error + 'b" where
  "bind_e m f = (case m of Inl e \<Rightarrow> Inl e | Inr x \<Rightarrow> f x)"

section \<open>Python numbers\<close>

subsection \<open>Rounding to a double\<close>

text \<open>The number of binary digits of a positive integer.\<close>

function bit_length :: "int \<Rightarrow> nat" where
  "bit_length n = (if n \<le> 0 then 0 else Suc (bit_length (n div 2)))"
  by pat_completeness auto
termination
  by (relation "measure nat") auto

declare bit_length.simps [simp del]

definition pow2 :: "int \<Rightarrow> rat" where
  "pow2 k = (if 0 \<le> k then 2 ^ nat k else 1 / 2 ^ nat (- k))"

text \<open>Rounding to the nearest integer, a tie going to the even neighbour.\<close>

definition round_half_even :: "rat \<Rightarrow> int" where
  "round_half_even x =
     (let f = \<lfloor>x\<rfloor>; r = x - of_int f
      in if r < 1 / 2 then f else if 1 / 2 < r then f + 1
         else if even f then f else f + 1)"

text \<open>For a positive \<open>a\<close>, the exponent \<open>e\<close> with \<open>2 ^ e \<le> a < 2 ^ (e + 1)\<close>: it is
  the difference of the bit lengths of numerator and denominator, or one less.\<close>

definition floor_log2 :: "rat \<Rightarrow> int" where
  "floor_log2 a =
     (let e = int (bit_length (fst (quotient_of a))) - int (bit_length (snd (quotient_of a)))
      in if pow2 e \<le> a then e else e - 1)"

text \<open>
  The double nearest to a rational number, a tie going to the even significand: 53
  significant bits, the unit in the last place never below \<open>2 ^ - 1074\<close>, and an
  infinity from \<open>2 ^ 1024\<close> on.
\<close>

definition round_double :: "rat \<Rightarrow> pyfloat" where
  "round_double x =
     (if x = 0 then Fin 0
      else let u = pow2 (max (floor_log2 \<bar>x\<bar>) (- 1022) - 52);
               m = of_int (round_half_even (\<bar>x\<bar> / u)) * u
           in if pow2 1024 \<le> m then (if x < 0 then NegInf else PosInf)
              else if m = 0 then (if x < 0 then NegZero else Fin 0)
              else Fin (if x < 0 then - m else m))"

text \<open>\<open>float(n)\<close> for an \<open>int\<close>: the nearest double, OverflowError when that would be
  an infinity.\<close>

definition float_of_int :: "int \<Rightarrow> error + pyfloat" where
  "float_of_int n =
     (case round_double (of_int n) of
        PosInf \<Rightarrow> Inl OverflowError
      | NegInf \<Rightarrow> Inl OverflowError
      | f \<Rightarrow> Inr f)"

subsection \<open>Arithmetic and comparison of floats\<close>

text \<open>\<open>a - b\<close> on floats. A zero result is the positive zero, except for
  \<open>-0.0 - 0.0\<close>.\<close>

fun float_sub :: "pyfloat \<Rightarrow> pyfloat \<Rightarrow> pyfloat" where
  "float_sub NaN b = NaN"
| "float_sub a NaN = NaN"
| "float_sub PosInf PosInf = NaN"
| "float_sub NegInf NegInf = NaN"
| "float_sub PosInf b = PosInf"
| "float_sub NegInf b = NegInf"
| "float_sub a PosInf = NegInf"
| "float_sub a NegInf = PosInf"
| "float_sub NegZero NegZero = Fin 0"
| "float_sub NegZero (Fin b) = (if b = 0 then NegZero else round_double (- b))"
| "float_sub (Fin a) NegZero = round_double a"
| "float_sub (Fin a) (Fin b) = round_double (a - b)"

text \<open>\<open>x <= c\<close> and \<open>x > c\<close> for a float \<open>x\<close> and a finite number \<open>c\<close>; every
  comparison with NaN is false.\<close>

fun float_le :: "pyfloat \<Rightarrow> rat \<Rightarrow> bool" where
  "float_le (Fin r) c = (r \<le> c)"
| "float_le NegZero c = (0 \<le> c)"
| "float_le PosInf c = False"
| "float_le NegInf c = True"
| "float_le NaN c = False"

fun float_gt :: "pyfloat \<Rightarrow> rat \<Rightarrow> bool" where
  "float_gt (Fin r) c = (c < r)"
| "float_gt NegZero c = (c < 0)"
| "float_gt PosInf c = True"
| "float_gt NegInf c = False"
| "float_gt NaN c = False"

fun float_abs :: "pyfloat \<Rightarrow> pyfloat" where
  "float_abs (Fin r) = Fin \<bar>r\<bar>"
| "float_abs NegZero = Fin 0"
| "float_abs PosInf = PosInf"
| "float_abs NegInf = PosInf"
| "float_abs NaN = NaN"

subsection \<open>Built-ins on values\<close>

text \<open>\<open>isinstance(v, (int, float))\<close> holds for bools, ints and floats. For such a
  value \<open>number_float\<close> is \<open>float(v)\<close>; for any other value it is \<open>None\<close>.\<close>

fun number_float :: "pyval \<Rightarrow> (error + pyfloat) option" where
  "number_float (PFloat f) = Some (Inr f)"
| "number_float (PInt n) = Some (float_of_int n)"
| "number_float (PBool b) = Some (Inr (Fin (if b then 1 else 0)))"
| "number_float PNone = None"
| "number_float (PStr s) = None"

definition is_number :: "pyval \<Rightarrow> bool" where
  "is_number v = (number_float v \<noteq> None)"

text \<open>Truth value of a Python object, as \<open>or\<close> and \<open>if\<close> test it.\<close>

fun truthy :: "pyval \<Rightarrow> bool" where
  "truthy PNone = False"
| "truthy (PBool b) = b"
| "truthy (PInt n) = (n \<noteq> 0)"
| "truthy (PFloat f) = (f \<noteq> Fin 0 \<and> f \<noteq> NegZero)"
| "truthy (PStr s) = (s \<noteq> [])"

text \<open>\<open>x <= c\<close> and \<open>x > c\<close> for a value \<open>x\<close> and a float or int constant \<open>c\<close>:
  Python compares an \<open>int\<close> with a float exactly; \<open>None\<close> and a \<open>str\<close> raise
  TypeError.\<close>

fun py_le :: "pyval \<Rightarrow> rat \<Rightarrow> error + bool" where
  "py_le (PFloat f) c = Inr (float_le f c)"
| "py_le (PInt n) c = Inr (of_int n \<le> c)"
| "py_le (PBool b) c = Inr ((if b then 1 else 0) \<le> c)"
| "py_le PNone c = Inl TypeError"
| "py_le (PStr s) c = Inl TypeError"

fun py_gt :: "pyval \<Rightarrow> rat \<Rightarrow> error + bool" where
  "py_gt (PFloat f) c = Inr (float_gt f c)"
| "py_gt (PInt n) c = Inr (c < of_int n)"
| "py_gt (PBool b) c = Inr (c < (if b then 1 else 0))"
| "py_gt PNone c = Inl TypeError"
| "py_gt (PStr s) c = Inl TypeError"

text \<open>\<open>abs(x)\<close>.\<close>

fun py_abs :: "pyval \<Rightarrow> error + pyval" where
  "py_abs (PFloat f) = Inr (PFloat (float_abs f))"
| "py_abs (PInt n) = Inr (PInt \<bar>n\<bar>)"
| "py_abs (PBool b) = Inr (PInt (if b then 1 else 0))"
| "py_abs PNone = Inl TypeError"
| "py_abs (PStr s) = Inl TypeError"

text \<open>The \<open>int\<close> that a bool or an int is.\<close>

fun int_of :: "pyval \<Rightarrow> int option" where
  "int_of (PInt n) = Some n"
| "int_of (PBool b) = Some (if b then 1 else 0)"
| "int_of v = None"

text \<open>\<open>a - b\<close>: an \<open>int\<close> for two ints; a float when one operand is a float, the
  other one converted with \<open>float\<close>; TypeError when an operand is \<open>None\<close> or a
  \<open>str\<close>.\<close>

fun py_sub :: "pyval \<Rightarrow> pyval \<Rightarrow> error + pyval" where
  "py_sub (PFloat a) (PFloat b) = Inr (PFloat (float_sub a b))"
| "py_sub (PFloat a) w =
     (case int_of w of
        Some n \<Rightarrow> bind_e (float_of_int n) (\<lambda>b. Inr (PFloat (float_sub a b)))
      | None \<Rightarrow> Inl TypeError)"
| "py_sub v (PFloat b) =
     (case int_of v of
        Some m \<Rightarrow> bind_e (float_of_int m) (\<lambda>a. Inr (PFloat (float_sub a b)))
      | None \<Rightarrow> Inl TypeError)"
| "py_sub v w =
     (case (int_of v, int_of w) of
        (Some m, Some n) \<Rightarrow> Inr (PInt (m - n))
      | _ \<Rightarrow> Inl TypeError)"

section \<open>Query helpers\<close>

text \<open>\<open>float(item.value) if isinstance(item.value, (int, float)) else item.value\<close>
  (lines 179 to 181).\<close>

definition as_float :: "pyval \<Rightarrow> error + pyval" where
  "as_float v =
     (case number_float v of
        Some r \<Rightarrow> bind_e r (\<lambda>f. Inr (PFloat f))
      | None \<Rightarrow> Inr v)"

text \<open>\<open>get_data_value\<close>: the first item whose variable equals the key after lowering
  both decides; \<open>None\<close> when no item matches.\<close>

fun get_data_value :: "OpenQueryData list \<Rightarrow> string \<Rightarrow> error + pyval" where
  "get_data_value [] key = Inr PNone"
| "get_data_value (item # rest) key =
     (if lower (variable item) = lower key then as_float (val item)
      else get_data_value rest key)"

text \<open>\<open>str.replace("\<degree>C", "C")\<close>: every occurrence, left to right; the degree sign
  is code point 176.\<close>

fun replace_degC :: "string \<Rightarrow> string" where
  "replace_degC (a # b # cs) =
     (if a = char_of (176::nat) \<and> b = CHR ''C'' then CHR ''C'' # replace_degC cs
      else a # replace_degC (b # cs))"
| "replace_degC cs = cs"

fun get_data_unit :: "OpenQueryData list \<Rightarrow> string \<Rightarrow> string" where
  "get_data_unit [] key = ''''"
| "get_data_unit (item # rest) key =
     (if lower (variable item) = lower key
      then replace_degC (case unit item of None \<Rightarrow> '''' | Some u \<Rightarrow> u)
      else get_data_unit rest key)"

fun get_data_name :: "OpenQueryData list \<Rightarrow> string \<Rightarrow> string" where
  "get_data_name [] key = key"
| "get_data_name (item # rest) key =
     (if lower (variable item) = lower key then name item
      else get_data_name rest key)"

section \<open>Number formatting\<close>

text \<open>\<open>str.rstrip(c)\<close> for a single character \<open>c\<close>.\<close>

definition rstrip :: "char \<Rightarrow> string \<Rightarrow> string" where
  "rstrip c s = rev (dropWhile (\<lambda>x. x = c) (rev s))"

definition digit_char :: "int \<Rightarrow> char" where
  "digit_char n = char_of (48 + n)"

text \<open>The decimal digits of a non-negative integer.\<close>

function decimal :: "int \<Rightarrow> string" where
  "decimal n = (if n < 10 then [digit_char n] else decimal (n div 10) @ [digit_char (n mod 10)])"
  by pat_completeness auto
termination
  by (relation "measure nat") auto

declare decimal.simps [simp del]

text \<open>The last \<open>d\<close> decimal digits of \<open>n\<close>, with leading zeros.\<close>

fun frac_digits :: "nat \<Rightarrow> int \<Rightarrow> string" where
  "frac_digits 0 n = []"
| "frac_digits (Suc d) n = frac_digits d (n div 10) @ [digit_char (n mod 10)]"

text \<open>A non-negative number in fixed-point notation with \<open>d\<close> digits after the point,
  rounded to the nearest such number, a tie going to the even last digit (Python rounds
  the exact value of the float); without a point when \<open>d\<close> is 0.\<close>

definition fixed_digits :: "rat \<Rightarrow> nat \<Rightarrow> string" where
  "fixed_digits a d =
     (let m = round_half_even (a * 10 ^ d)
      in decimal (m div 10 ^ d) @ (if d = 0 then '''' else ''.'' @ frac_digits d m))"

text \<open>A float under the presentation type \<open>f\<close> with precision \<open>d\<close>.\<close>

fun format_float :: "pyfloat \<Rightarrow> nat \<Rightarrow> string" where
  "format_float (Fin r) d = (if r < 0 then ''-'' else '''') @ fixed_digits \<bar>r\<bar> d"
| "format_float NegZero d = ''-'' @ fixed_digits 0 d"
| "format_float PosInf d = ''inf''"
| "format_float NegInf d = ''-inf''"
| "format_float NaN d = ''nan''"

text \<open>
  \<open>format_value v d\<close> is the f-string \<open>f"{v:.{d}f}"\<close>. \<open>None\<close> rejects every format
  spec (TypeError) and a \<open>str\<close> rejects this one (ValueError). For a number, a negative
  precision gives a spec such as \<open>.-1f\<close> and a precision above \<open>2 ^ 31 - 1\<close> is too
  big: both raise ValueError; otherwise a bool or an int is converted with \<open>float\<close> and
  formatted as that float. (That a very long result may exhaust the memory is not
  modelled.)
\<close>

fun format_value :: "pyval \<Rightarrow> int \<Rightarrow> error + string" where
  "format_value PNone d = Inl TypeError"
| "format_value (PStr s) d = Inl ValueError"
| "format_value v d =
     (if d < 0 \<or> 2147483647 < d then Inl ValueError
      else case number_float v of
             Some r \<Rightarrow> bind_e r (\<lambda>f. Inr (format_float f (nat d)))
           | None \<Rightarrow> Inl TypeError)"

text \<open>\<open>format_power_value\<close>, lines 218 to 221.\<close>

definition format_power_value :: "pyval \<Rightarrow> int \<Rightarrow> error + string" where
  "format_power_value v decimal_places =
     bind_e (format_value v decimal_places)
       (\<lambda>s. Inr (rstrip (CHR ''.'') (rstrip (CHR ''0'') s) @ '' kW''))"

section \<open>Output\<close>

text \<open>
  What a run prints is a list of lines, and the exception that ended it, if any. A
  sequence of \<open>print\<close> statements is a list of lines each of which may raise while it
  is built: the lines before the first exception are printed.
\<close>

fun print_all :: "(error + string) list \<Rightarrow> string list \<times> error option" where
  "print_all [] = ([], None)"
| "print_all (Inl e # rest) = ([], Some e)"
| "print_all (Inr l # rest) = (case print_all rest of (ls, e) \<Rightarrow> (l # ls, e))"

text \<open>The float that the literal \<open>0.02\<close> denotes; a reading written \<open>0.02\<close> in the
  response is this same float.\<close>

definition zero_threshold :: rat where
  "zero_threshold = 5764607523034235 / 288230376151711744"

definition solar_names :: "string list" where
  "solar_names = [''generationPower'', ''pvPower'']"

subsection \<open>The show-all path: \<open>dump_all_variables\<close>\<close>

text \<open>The text printed for the value of one item (lines 208 to 213). The first two
  equations are the \<open>else\<close> branch of the \<open>isinstance\<close> test, the third is its
  \<open>if\<close> branch; \<open>solar\<close> is the test \<open>item.variable in [...]\<close>, and the comparison
  with 0.02 is made only when it holds.\<close>

fun dump_value_str :: "bool \<Rightarrow> pyval \<Rightarrow> int \<Rightarrow> error + string" where
  "dump_value_str solar PNone d = Inr ''unknown''"
| "dump_value_str solar (PStr s) d = Inr s"
| "dump_value_str solar v d =
     bind_e (if solar then py_le v zero_threshold else Inr False)
       (\<lambda>floor. bind_e (format_value (if floor then PFloat (Fin 0) else v) d)
          (\<lambda>s. Inr (rstrip (CHR ''.'') (rstrip (CHR ''0'') s))))"

definition dump_line :: "int \<Rightarrow> OpenQueryData \<Rightarrow> error + string" where
  "dump_line d item =
     bind_e (dump_value_str (variable item \<in> set solar_names) (val item) d)
       (\<lambda>value_str. Inr (''  '' @ variable item @ '': '' @ value_str @ '' '' @
                          (case unit item of None \<Rightarrow> '''' | Some u \<Rightarrow> u)))"

definition dump_all_variables :: "OpenQueryData list \<Rightarrow> int \<Rightarrow> string list \<times> error option" where
  "dump_all_variables data_list decimal_places =
     print_all (Inr ''Available variables:'' # map (dump_line decimal_places) data_list)"

subsection \<open>The explicit-variable path (lines 325 to 334)\<close>

text \<open>The line for one requested variable. The test for the zero floor is on the name
  as it was requested.\<close>

definition variable_line :: "OpenQueryData list \<Rightarrow> int \<Rightarrow> string \<Rightarrow> error + string" where
  "variable_line data d var =
     bind_e (get_data_value data var)
       (\<lambda>value.
          if is_number value
          then bind_e (if var \<in> set solar_names then py_le value zero_threshold else Inr False)
                 (\<lambda>floor. bind_e (format_value (if floor then PFloat (Fin 0) else value) d)
                    (\<lambda>s. Inr (var @ '': '' @ rstrip (CHR ''.'') (rstrip (CHR ''0'') s) @ '' '' @
                               get_data_unit data var)))
          else Inr (var @ '': Not available''))"

definition show_variables :: "OpenQueryData list \<Rightarrow> int \<Rightarrow> string list \<Rightarrow> string list \<times> error option" where
  "show_variables data d variables = print_all (map (variable_line data d) variables)"

subsection \<open>The default summary (lines 280 to 318)\<close>

text \<open>\<open>get_data_value(data, key) or 0\<close>.\<close>

definition reading :: "OpenQueryData list \<Rightarrow> string \<Rightarrow> error + pyval" where
  "reading data key =
     bind_e (get_data_value data key) (\<lambda>v. Inr (if truthy v then v else PInt 0))"

text \<open>\<open>if x <= 0.02: x = 0\<close> (lines 293 to 296).\<close>

definition zero_floor :: "pyval \<Rightarrow> error + pyval" where
  "zero_floor x = bind_e (py_le x zero_threshold) (\<lambda>floor. Inr (if floor then PInt 0 else x))"

text \<open>The values that the summary prints, computed in the order of lines 280 to 296:
  solar, pv_power, home, grid_flow, battery_flow and battery_soc.\<close>

definition summary_values ::
    "OpenQueryData list \<Rightarrow> error + (pyval \<times> pyval \<times> pyval \<times> pyval \<times> pyval \<times> pyval)" where
  "summary_values data =
     bind_e (reading data ''generationPower'') (\<lambda>solar.
     bind_e (reading data ''pvPower'') (\<lambda>pv_power.
     bind_e (reading data ''gridConsumptionPower'') (\<lambda>grid_consumption.
     bind_e (reading data ''feedinPower'') (\<lambda>feed_in.
     bind_e (reading data ''loadsPower'') (\<lambda>home.
     bind_e (py_sub grid_consumption feed_in) (\<lambda>grid_flow.
     bind_e (reading data ''batChargePower'') (\<lambda>battery_charge.
     bind_e (reading data ''batDischargePower'') (\<lambda>battery_discharge.
     bind_e (py_sub battery_charge battery_discharge) (\<lambda>battery_flow.
     bind_e (reading data ''SoC'') (\<lambda>battery_soc.
     bind_e (zero_floor solar) (\<lambda>solar.
     bind_e (zero_floor pv_power) (\<lambda>pv_power.
     Inr (solar, pv_power, home, grid_flow, battery_flow, battery_soc)))))))))))))"

text \<open>The line of a flow (lines 313 and 316): the formatted absolute value, then one
  of two words by the sign.\<close>

definition flow_line :: "string \<Rightarrow> string \<Rightarrow> string \<Rightarrow> pyval \<Rightarrow> int \<Rightarrow> error + string" where
  "flow_line label positive_word other_word flow d =
     bind_e (py_abs flow) (\<lambda>magnitude.
     bind_e (format_power_value magnitude d) (\<lambda>s.
     bind_e (py_gt flow 0) (\<lambda>positive.
     Inr (label @ s @ '' '' @ (if positive then positive_word else other_word)))))"

text \<open>The \<open>print\<close> statements of lines 309 to 318.\<close>

definition summary_lines ::
    "Device \<Rightarrow> pyval \<times> pyval \<times> pyval \<times> pyval \<times> pyval \<times> pyval \<Rightarrow> int \<Rightarrow> (error + string) list" where
  "summary_lines device vals d =
     (case vals of (solar, pv_power, home, grid_flow, battery_flow, battery_soc) \<Rightarrow>
        [Inr (''Device: '' @ station_name device),
         bind_e (format_power_value solar d) (\<lambda>s. Inr (''generationPower: '' @ s)),
         bind_e (format_power_value pv_power d) (\<lambda>s. Inr (''pvPower: '' @ s)),
         bind_e (format_power_value home d) (\<lambda>s. Inr (''loadsPower: '' @ s)),
         flow_line ''Grid: '' ''import'' ''export'' grid_flow d]
        @ (if has_battery device
           then [flow_line ''Battery: '' ''charging'' ''discharging'' battery_flow d,
                 bind_e (format_value battery_soc d)
                   (\<lambda>s. Inr (''SoC: '' @ rstrip (CHR ''.'') (rstrip (CHR ''0'') s) @ ''%''))]
           else []))"

definition default_summary :: "Device \<Rightarrow> OpenQueryData list \<Rightarrow> int \<Rightarrow> string list \<times> error option" where
  "default_summary device data d =
     (case summary_values data of
        Inl e \<Rightarrow> ([], Some e)
      | Inr vals \<Rightarrow> print_all (summary_lines device vals d))"

subsection \<open>Choice of the output mode in \<open>main\<close>\<close>

text \<open>The variable flags: every remaining argument that starts with two dashes and
  has something after them (lines 236 to 239).\<close>

fun extract_variables :: "string list \<Rightarrow> string list" where
  "extract_variables [] = []"
| "extract_variables (arg # remaining) =
     (if take 2 arg = ''--'' \<and> length arg > 2
      then drop 2 arg # extract_variables remaining
      else extract_variables remaining)"

text \<open>The parsed options that the output depends on. The debug lines are left out:
  the model is of a run without \<open>--debug\<close> and without \<open>--test\<close>.\<close>

record args =
  all_flag :: bool
  decimals :: int

text \<open>Lines 278 to 334 of \<open>main\<close>, once the device and its data have been fetched.\<close>

definition main_output :: "args \<Rightarrow> string list \<Rightarrow> Device \<Rightarrow> OpenQueryData list \<Rightarrow> string list \<times> error option" where
  "main_output a variables device data =
     (if variables = [] \<and> \<not> all_flag a then default_summary device data (decimals a)
      else if all_flag a then dump_all_variables data (decimals a)
      else show_variables data (decimals a) variables)"

section \<open>The API client\<close>

subsection \<open>\<open>_generate_signature\<close>\<close>











subsection \<open>\<open>_fetch\<close>\<close>

datatype json = JVal pyval | JArr "json list" | JObj "(string \<times> json) list"

text \<open>\<open>dict.get(key, default)\<close> on the items of a dict (the keys are distinct).\<close>

definition dict_get :: "(string \<times> json) list \<Rightarrow> string \<Rightarrow> json \<Rightarrow> json" where
  "dict_get d key dflt = (case map_of d key of None \<Rightarrow> dflt | Some v \<Rightarrow> v)"

text \<open>What \<open>urlopen\<close> and \<open>json.loads\<close> hand to the rest of \<open>_fetch\<close>: the parsed
  body of a 2xx response, a body that is not JSON, an HTTPError with its status and
  text, or a URLError with its reason.\<close>

datatype outcome = Response json | BadBody | HTTPErrorRaised int string | URLErrorRaised string

text \<open>Lines 100 to 113. A body that is not an object has no \<open>get\<close> (AttributeError);
  an \<open>errno\<close> that is not a number cannot be compared with 0 (TypeError).\<close>

fun fetch :: "outcome \<Rightarrow> error + json" where
  "fetch (HTTPErrorRaised code error_text) = Inl (HTTPError code error_text)"
| "fetch (URLErrorRaised reason) = Inl (URLError reason)"
| "fetch BadBody = Inl JSONDecodeError"
| "fetch (Response (JObj response_data)) =
     (case dict_get response_data ''errno'' (JVal (PInt 0)) of
        JVal v \<Rightarrow>
          bind_e (py_gt v 0)
            (\<lambda>positive. if positive then Inl (ServerError v)
                        else Inr (dict_get response_data ''result'' (JObj [])))
      | _ \<Rightarrow> Inl TypeError)"
| "fetch (Response _) = Inl AttributeError"

section \<open>Words of the specification\<close>

text \<open>Two strings differ only in the case of letters: they have the same length and,
  at each position, the characters are equal or one is the lower-case form of the
  other.\<close>

definition same_letter :: "char \<Rightarrow> char \<Rightarrow> bool" where
  "same_letter a b = (a = b \<or> b = lower_char a \<or> a = lower_char b)"

definition case_variant :: "string \<Rightarrow> string \<Rightarrow> bool" where
  "case_variant s t = list_all2 same_letter s t"


text \<open>Trimming: strip the trailing zeros, then a trailing decimal point.\<close>

definition trimmed :: "string \<Rightarrow> string" where
  "trimmed s = rstrip (CHR ''.'') (rstrip (CHR ''0'') s)"

text \<open>The fixed-point rendering of a finite number: a minus sign when it is negative,
  then its absolute value with \<open>d\<close> digits after the point.\<close>

definition rendering :: "rat \<Rightarrow> nat \<Rightarrow> string" where
  "rendering r d = (if r < 0 then ''-'' else '''') @ fixed_digits \<bar>r\<bar> d"

text \<open>The eight variables that the default summary reads.\<close>

definition summary_keys :: "string list" where
  "summary_keys = [''generationPower'', ''pvPower'', ''gridConsumptionPower'', ''feedinPower'',
                   ''loadsPower'', ''batChargePower'', ''batDischargePower'', ''SoC'']"

text \<open>A numeric reading, as \<open>get_data_value(data, key) or 0\<close> gives it: a float, or
  the int 0 that stands in for a missing value or a zero.\<close>

definition numeric :: "pyval \<Rightarrow> bool" where
  "numeric v = ((\<exists>f. v = PFloat f) \<or> v = PInt 0)"

definition numeric_reading :: "OpenQueryData list \<Rightarrow> string \<Rightarrow> bool" where
  "numeric_reading data key = (\<exists>v. reading data key = Inr v \<and> numeric v)"

text \<open>No item of the list has the variable, whatever the case of its letters.\<close>

definition absent :: "OpenQueryData list \<Rightarrow> string \<Rightarrow> bool" where
  "absent data key = (\<forall>p \<in> set data. \<not> case_variant (variable p) key)"


section \<open>Example inputs\<close>

definition soc_points :: "OpenQueryData list" where
  "soc_points =
     [\<lparr>variable = ''pvPower'', val = PInt 3, name = ''PV'', unit = Some ''kW''\<rparr>,
      \<lparr>variable = ''SoC'', val = PFloat (Fin (171 / 2)), name = ''State of charge'', unit = Some ''%''\<rparr>,
      \<lparr>variable = ''soc'', val = PInt 1, name = ''second'', unit = None\<rparr>]"

definition unnamed_point :: OpenQueryData where
  "unnamed_point = \<lparr>variable = ''SoC'', val = PInt 85, name = '''', unit = Some ''%''\<rparr>"

definition named_point :: OpenQueryData where
  "named_point = \<lparr>variable = ''SoC'', val = PInt 85, name = ''State of charge'', unit = Some ''%''\<rparr>"

definition home_device :: Device where
  "home_device = \<lparr>station_name = ''Home'', has_battery = True\<rparr>"

definition error_envelope :: "(string \<times> json) list" where
  "error_envelope = [(''errno'', JVal (PInt 41808)), (''result'', JVal PNone)]"

definition ok_envelope :: "(string \<times> json) list" where
  "ok_envelope = [(''errno'', JVal (PInt 0)), (''result'', JArr [JVal (PStr ''data'')])]"

definition negative_envelope :: "(string \<times> json) list" where
  "negative_envelope = [(''errno'', JVal (PInt (- 1))), (''result'', JArr [JVal (PStr ''data'')])]"


definition point :: "string \<Rightarrow> pyval \<Rightarrow> OpenQueryData" where
  "point var v = \<lparr>variable = var, val = v, name = var, unit = Some ''kW''\<rparr>"

definition import_points :: "OpenQueryData list" where
  "import_points =
     [point ''gridConsumptionPower'' (PInt 100), point ''feedinPower'' (PInt 30),
      point ''batChargePower'' (PFloat (Fin (1 / 2))), point ''batDischargePower'' (PInt 2)]"

definition export_points :: "OpenQueryData list" where
  "export_points =
     [point ''gridConsumptionPower'' (PInt 10), point ''feedinPower'' (PInt 50),
      point ''batChargePower'' (PInt 5), point ''batDischargePower'' (PInt 2)]"

definition night_points :: "OpenQueryData list" where
  "night_points = [point ''generationPower'' (PFloat (Fin (1 / 128)))]"

section \<open>Lookups ignore the case of letters\<close>

lemma lower_char_idem: "lower_char (lower_char c) = lower_char c"
  unfolding lower_char_def Let_def
  by auto

lemma shifted_char_inject:
  fixes a b :: char
  assumes "(char_of (of_char a + (32::nat)) :: char) = char_of (of_char b + (32::nat))"
    and "(of_char a :: nat) + 32 < 256" and "(of_char b :: nat) + 32 < 256"
  shows "a = b"
proof -
  from assms(1)
  have "(of_char (char_of (of_char a + (32::nat)) :: char) :: nat)
      = of_char (char_of (of_char b + (32::nat)) :: char)"
    by (rule arg_cong)
  then have "((of_char a :: nat) + 32) mod 256 = ((of_char b :: nat) + 32) mod 256"
    by (simp only: of_char_of)
  with assms(2,3) have "(of_char a :: nat) = of_char b"
    by simp
  then show ?thesis
    by (simp only: of_char_eq_iff)
qed

lemma lower_char_eq_cases:
  assumes "lower_char a = lower_char b"
  shows "a = b \<or> b = lower_char a \<or> a = lower_char b"
proof (cases "lower_char a = a")
  case True
  with assms show ?thesis by simp
next
  case a: False
  show ?thesis
  proof (cases "lower_char b = b")
    case True
    with assms show ?thesis by simp
  next
    case b: False
    from a have ra: "(of_char a :: nat) + 32 < 256" and la: "lower_char a = char_of (of_char a + (32::nat))"
      by (auto simp: lower_char_def Let_def split: if_splits)
    from b have rb: "(of_char b :: nat) + 32 < 256" and lb: "lower_char b = char_of (of_char b + (32::nat))"
      by (auto simp: lower_char_def Let_def split: if_splits)
    from assms la lb have "(char_of (of_char a + (32::nat)) :: char) = char_of (of_char b + (32::nat))"
      by simp
    then have "a = b"
      using ra rb by (rule shifted_char_inject)
    then show ?thesis by simp
  qed
qed

text \<open>Comparing the lowered strings, as the three helpers do, is equality up to the
  case of letters.\<close>

lemma same_letter_iff: "same_letter a b \<longleftrightarrow> lower_char a = lower_char b"
  unfolding same_letter_def
  using lower_char_eq_cases [of a b] lower_char_idem [of a] lower_char_idem [of b] by auto

lemma case_variant_iff: "case_variant s t \<longleftrightarrow> lower s = lower t"
  unfolding case_variant_def lower_def
  by (induction s arbitrary: t) (auto simp: same_letter_iff list_all2_Cons1)

text \<open>Each helper returns what the first matching item gives (\<open>find\<close> returns the
  first element of the list that satisfies the test).\<close>

lemma get_data_value_find:
  "get_data_value pts key =
     (case find (\<lambda>p. lower (variable p) = lower key) pts of
        None \<Rightarrow> Inr PNone | Some p \<Rightarrow> as_float (val p))"
  by (induction pts) simp_all

lemma get_data_unit_find:
  "get_data_unit pts key =
     (case find (\<lambda>p. lower (variable p) = lower key) pts of
        None \<Rightarrow> '''' | Some p \<Rightarrow> replace_degC (case unit p of None \<Rightarrow> '''' | Some u \<Rightarrow> u))"
  by (induction pts) simp_all

lemma get_data_name_find:
  "get_data_name pts key =
     (case find (\<lambda>p. lower (variable p) = lower key) pts of
        None \<Rightarrow> key | Some p \<Rightarrow> name p)"
  by (induction pts) simp_all

text \<open>
  C7, amended. Names are strings of the code points 0 to 255, on which lower-casing acts
  letter by letter. For a query \<open>q'\<close> that differs from \<open>q\<close> only in the case of
  letters, \<open>get_data_value\<close> and \<open>get_data_unit\<close> return the same for \<open>q'\<close> as for
  \<open>q\<close>, on every list; \<open>get_data_name\<close> does so whenever some item of the list
  matches (on a miss it returns the query as it was typed). Each result is read from the
  first item of the list whose variable equals the query up to the case of letters: the
  value converted with \<open>float\<close> when it is a number, the unit with the degree sign
  removed, the display name.
\<close>

theorem lookup_case_insensitive:
  assumes "case_variant q q'"
  shows "get_data_value pts q' = get_data_value pts q
       \<and> get_data_unit pts q' = get_data_unit pts q
       \<and> ((\<exists>p \<in> set pts. case_variant (variable p) q) \<longrightarrow> get_data_name pts q' = get_data_name pts q)
       \<and> get_data_value pts q' =
           (case find (\<lambda>p. case_variant (variable p) q) pts of
              None \<Rightarrow> Inr PNone | Some p \<Rightarrow> as_float (val p))
       \<and> get_data_unit pts q' =
           (case find (\<lambda>p. case_variant (variable p) q) pts of
              None \<Rightarrow> '''' | Some p \<Rightarrow> replace_degC (case unit p of None \<Rightarrow> '''' | Some u \<Rightarrow> u))
       \<and> get_data_name pts q' =
           (case find (\<lambda>p. case_variant (variable p) q) pts of
              None \<Rightarrow> q' | Some p \<Rightarrow> name p)"
proof -
  from assms have eq: "lower q' = lower q"
    by (simp add: case_variant_iff)
  have pred: "(\<lambda>p. case_variant (variable p) q) = (\<lambda>p. lower (variable p) = lower q)"
    by (simp add: case_variant_iff)
  have v: "get_data_value pts q' = get_data_value pts q"
    by (simp add: get_data_value_find eq)
  have u: "get_data_unit pts q' = get_data_unit pts q"
    by (simp add: get_data_unit_find eq)
  have n: "get_data_name pts q' = get_data_name pts q"
    if "\<exists>p \<in> set pts. case_variant (variable p) q"
  proof -
    from that have "find (\<lambda>p. lower (variable p) = lower q) pts \<noteq> None"
      by (auto simp: find_None_iff case_variant_iff)
    then show ?thesis
      by (auto simp: get_data_name_find eq)
  qed
  have fv: "get_data_value pts q' =
           (case find (\<lambda>p. case_variant (variable p) q) pts of
              None \<Rightarrow> Inr PNone | Some p \<Rightarrow> as_float (val p))"
    unfolding pred by (simp add: get_data_value_find eq)
  have fu: "get_data_unit pts q' =
           (case find (\<lambda>p. case_variant (variable p) q) pts of
              None \<Rightarrow> '''' | Some p \<Rightarrow> replace_degC (case unit p of None \<Rightarrow> '''' | Some u \<Rightarrow> u))"
    unfolding pred by (simp add: get_data_unit_find eq)
  have fn: "get_data_name pts q' =
           (case find (\<lambda>p. case_variant (variable p) q) pts of
              None \<Rightarrow> q' | Some p \<Rightarrow> name p)"
    unfolding pred by (simp add: get_data_name_find eq)
  show ?thesis
    by (intro conjI impI) (rule v u fv fu fn | erule n)+
qed

text \<open>Searching \<open>SOC\<close>, \<open>soc\<close> and \<open>SoC\<close> in a list with an item \<open>SoC\<close>, followed
  by an item \<open>soc\<close>, finds the first of the two each time.\<close>

theorem lookup_case_insensitive_witness:
  "case_variant ''SoC'' ''SOC'' \<and> case_variant ''SoC'' ''soc''
   \<and> get_data_value soc_points ''SOC'' = Inr (PFloat (Fin (171 / 2)))
   \<and> get_data_value soc_points ''soc'' = Inr (PFloat (Fin (171 / 2)))
   \<and> get_data_value soc_points ''SoC'' = Inr (PFloat (Fin (171 / 2)))
   \<and> get_data_unit soc_points ''SOC'' = ''%''
   \<and> get_data_name soc_points ''SOC'' = ''State of charge''"
proof -
  have h1: "case_variant ''SoC'' ''SOC''"
    by code_simp
  have h2: "case_variant ''SoC'' ''soc''"
    by code_simp
  have v: "get_data_value soc_points ''SoC'' = Inr (PFloat (Fin (171 / 2)))"
    by code_simp
  have u: "get_data_unit soc_points ''SoC'' = ''%''"
    by code_simp
  have n: "get_data_name soc_points ''SoC'' = ''State of charge''"
    by code_simp
  have m: "\<exists>p \<in> set soc_points. case_variant (variable p) ''SoC''"
    by code_simp
  note upper = lookup_case_insensitive [OF h1, of soc_points]
  note lower = lookup_case_insensitive [OF h2, of soc_points]
  have v1: "get_data_value soc_points ''SOC'' = Inr (PFloat (Fin (171 / 2)))"
    by (rule trans [OF upper [THEN conjunct1] v])
  have v2: "get_data_value soc_points ''soc'' = Inr (PFloat (Fin (171 / 2)))"
    by (rule trans [OF lower [THEN conjunct1] v])
  have u1: "get_data_unit soc_points ''SOC'' = ''%''"
    by (rule trans [OF upper [THEN conjunct2, THEN conjunct1] u])
  have n1: "get_data_name soc_points ''SOC'' = ''State of charge''"
    by (rule trans [OF upper [THEN conjunct2, THEN conjunct2, THEN conjunct1, THEN mp, OF m] n])
  show ?thesis
    by (intro conjI) (rule h1 h2 v1 v2 v u1 n1)+
qed

text \<open>C7 as stated fails for \<open>get_data_name\<close>: when no item matches, it returns the
  query, so two spellings of the query give two results.\<close>

theorem lookup_name_miss_counterexample:
  "case_variant ''soc'' ''SOC'' \<and> get_data_name [] ''SOC'' \<noteq> get_data_name [] ''soc''"
  by code_simp

section \<open>The display name of a variable\<close>

text \<open>
  C8, amended. \<open>get_data_name\<close> matches the requested name against the variable of each
  item (not against its display name), without regard to the case of letters; it returns
  the display name of the first matching item, which may be empty, and the requested name
  itself when no item matches. The result is not empty when the requested name and every
  display name in the list are not empty.
\<close>

theorem get_data_name_first_match:
  "get_data_name pts key =
     (case find (\<lambda>p. case_variant (variable p) key) pts of
        None \<Rightarrow> key | Some p \<Rightarrow> name p)
   \<and> (key \<noteq> [] \<and> (\<forall>p \<in> set pts. name p \<noteq> []) \<longrightarrow> get_data_name pts key \<noteq> [])"
proof -
  have pred: "(\<lambda>p. case_variant (variable p) key) = (\<lambda>p. lower (variable p) = lower key)"
    by (simp add: case_variant_iff)
  have "get_data_name pts key \<noteq> []" if "key \<noteq> []" "\<forall>p \<in> set pts. name p \<noteq> []"
    using that by (induction pts) auto
  then show ?thesis
    unfolding pred by (simp add: get_data_name_find)
qed

theorem get_data_name_first_match_witness:
  "''SOC'' \<noteq> [] \<and> name named_point \<noteq> []
   \<and> get_data_name [named_point] ''SOC'' = ''State of charge''
   \<and> get_data_name [named_point] ''SOC'' \<noteq> []"
proof -
  have k: "''SOC'' \<noteq> []"
    by simp
  have n1: "name named_point \<noteq> []"
    by (simp add: named_point_def)
  then have n: "\<forall>p \<in> set [named_point]. name p \<noteq> []"
    by simp
  have v: "get_data_name [named_point] ''SOC'' = ''State of charge''"
    by code_simp
  have e: "get_data_name [named_point] ''SOC'' \<noteq> []"
    by (rule get_data_name_first_match [of "[named_point]" "''SOC''", THEN conjunct2, THEN mp,
          OF conjI [OF k n]])
  show ?thesis
    by (intro conjI) (rule k n1 v e)+
qed

text \<open>C8 as stated fails: an item built from a response without a \<open>name\<close> key has the
  empty display name, which a successful lookup returns; and a request that equals the
  display name of an item, but not its variable, is not matched.\<close>

theorem get_data_name_empty_counterexample:
  "get_data_name [unnamed_point] ''soc'' = ''''
   \<and> get_data_name [named_point] ''state of charge'' = ''state of charge''"
  by code_simp


section \<open>The envelope of a response\<close>

text \<open>
  C4, amended. For every 2xx response whose body is a JSON object with an integer
  \<open>errno\<close>, \<open>_fetch\<close> raises a server error that carries the code when the code is
  strictly positive, and returns the \<open>result\<close> payload (an empty dict when the key is
  missing) when the code is zero or negative.
\<close>

theorem fetch_positive_errno:
  assumes "map_of response_data ''errno'' = Some (JVal (PInt n))"
  shows "(0 < n \<longrightarrow> fetch (Response (JObj response_data)) = Inl (ServerError (PInt n)))
       \<and> (n \<le> 0 \<longrightarrow> fetch (Response (JObj response_data))
                       = Inr (dict_get response_data ''result'' (JObj [])))"
  using assms by (simp add: dict_get_def bind_e_def)

theorem fetch_positive_errno_witness:
  "map_of error_envelope ''errno'' = Some (JVal (PInt 41808))
   \<and> fetch (Response (JObj error_envelope)) = Inl (ServerError (PInt 41808))
   \<and> map_of ok_envelope ''errno'' = Some (JVal (PInt 0))
   \<and> fetch (Response (JObj ok_envelope)) = Inr (JArr [JVal (PStr ''data'')])"
proof -
  have e: "map_of error_envelope ''errno'' = Some (JVal (PInt 41808))"
    by (simp add: error_envelope_def)
  have k: "map_of ok_envelope ''errno'' = Some (JVal (PInt 0))"
    by (simp add: ok_envelope_def)
  have r: "dict_get ok_envelope ''result'' (JObj []) = JArr [JVal (PStr ''data'')]"
    by (simp add: ok_envelope_def dict_get_def)
  have f1: "fetch (Response (JObj error_envelope)) = Inl (ServerError (PInt 41808))"
    by (rule fetch_positive_errno [OF e, THEN conjunct1, THEN mp]) simp
  have f2: "fetch (Response (JObj ok_envelope)) = Inr (dict_get ok_envelope ''result'' (JObj []))"
    by (rule fetch_positive_errno [OF k, THEN conjunct2, THEN mp]) simp
  from f2 have f3: "fetch (Response (JObj ok_envelope)) = Inr (JArr [JVal (PStr ''data'')])"
    by (simp only: r)
  show ?thesis
    by (intro conjI) (rule e k f1 f3)+
qed

text \<open>C4 as stated fails: the error code \<open>-1\<close> is not zero, and the payload is
  returned all the same, since line 102 tests \<open>errno > 0\<close>.\<close>

theorem fetch_negative_errno_counterexample:
  "map_of negative_envelope ''errno'' = Some (JVal (PInt (- 1))) \<and> (- 1 :: int) \<noteq> 0
   \<and> fetch (Response (JObj negative_envelope)) = Inr (JArr [JVal (PStr ''data'')])"
  by (simp add: negative_envelope_def dict_get_def bind_e_def)

section \<open>The signature of a request\<close>













section \<open>Trimming a formatted number\<close>

lemma rstrip_snoc: "rstrip c (xs @ [y]) = (if y = c then rstrip c xs else xs @ [y])"
  by (simp add: rstrip_def)

lemma rstrip_Nil: "rstrip c [] = []"
  by (simp add: rstrip_def)

lemma rstrip_notin: "c \<notin> set s \<Longrightarrow> rstrip c s = s"
  by (cases s rule: rev_cases) (auto simp: rstrip_snoc rstrip_Nil)

lemma set_rstrip: "set (rstrip c s) \<subseteq> set s"
  unfolding rstrip_def using set_dropWhileD by fastforce

lemma rstrip_append:
  "rstrip c (xs @ ys) = (if rstrip c ys = [] then rstrip c xs else xs @ rstrip c ys)"
proof (induction ys rule: rev_induct)
  case Nil
  then show ?case by (simp add: rstrip_Nil)
next
  case (snoc y ys)
  have "rstrip c ((xs @ ys) @ [y]) = (if y = c then rstrip c (xs @ ys) else (xs @ ys) @ [y])"
    by (rule rstrip_snoc)
  with snoc show ?case
    by (simp add: rstrip_snoc)
qed

lemma rstrip_last: "rstrip c s \<noteq> [] \<Longrightarrow> last (rstrip c s) \<noteq> c"
proof (induction s rule: rev_induct)
  case Nil
  then show ?case by (simp add: rstrip_Nil)
next
  case (snoc y ys)
  then show ?case by (simp add: rstrip_snoc split: if_splits)
qed

text \<open>The characters of a formatted number.\<close>

lemma digit_char_not_point: "0 \<le> n \<Longrightarrow> n < 10 \<Longrightarrow> digit_char n \<noteq> CHR ''.''"
  unfolding digit_char_def by (auto simp: char_of_eq_iff take_bit_eq_mod)

lemma decimal_no_point: "0 \<le> n \<Longrightarrow> CHR ''.'' \<notin> set (decimal n)"
proof (induction n rule: decimal.induct)
  case (1 n)
  show ?case
  proof (cases "n < 10")
    case True
    with "1.prems" have "digit_char n \<noteq> CHR ''.''"
      by (intro digit_char_not_point)
    with True show ?thesis
      by (subst decimal.simps) auto
  next
    case False
    with "1.prems" have "CHR ''.'' \<notin> set (decimal (n div 10))"
      by (intro "1.IH") auto
    moreover have "digit_char (n mod 10) \<noteq> CHR ''.''"
      by (rule digit_char_not_point) auto
    ultimately show ?thesis
      using False by (subst decimal.simps) auto
  qed
qed

lemma decimal_not_Nil: "decimal n \<noteq> []"
  by (subst decimal.simps) simp

lemma frac_digits_no_point: "CHR ''.'' \<notin> set (frac_digits d m)"
proof (induction d arbitrary: m)
  case 0
  then show ?case by simp
next
  case (Suc d)
  have "digit_char (m mod 10) \<noteq> CHR ''.''"
    by (rule digit_char_not_point) auto
  with Suc [of "m div 10"] show ?case by auto
qed

lemma length_frac_digits: "length (frac_digits d m) = d"
  by (induction d arbitrary: m) simp_all

lemma round_half_even_nonneg: "0 \<le> x \<Longrightarrow> 0 \<le> round_half_even x"
  unfolding round_half_even_def Let_def by (auto simp: add_nonneg_nonneg)

lemma fixed_digits_zero_decimals: "fixed_digits a 0 = decimal (round_half_even a)"
  by (simp add: fixed_digits_def)

lemma format_float_zero_no_point: "CHR ''.'' \<notin> set (format_float f 0)"
proof (cases f)
  case (Fin r)
  have "decimal (round_half_even \<bar>r\<bar>) = decimal (round_half_even \<bar>r\<bar>)" ..
  have "CHR ''.'' \<notin> set (decimal (round_half_even \<bar>r\<bar>))"
    by (rule decimal_no_point) (simp add: round_half_even_nonneg)
  with Fin show ?thesis
    by (simp add: fixed_digits_zero_decimals)
next
  case NegZero
  have "CHR ''.'' \<notin> set (decimal (round_half_even 0))"
    by (rule decimal_no_point) (simp add: round_half_even_nonneg)
  with NegZero show ?thesis
    by (simp add: fixed_digits_zero_decimals)
qed simp_all

lemma format_value_number:
  assumes "number_float v = Some (Inr f)" and "0 \<le> d" and "d \<le> 2147483647"
  shows "format_value v d = Inr (format_float f (nat d))"
  using assms by (cases v) (simp_all add: bind_e_def)

lemma format_value_Inr:
  assumes "format_value v d = Inr s"
  shows "\<exists>f. number_float v = Some (Inr f) \<and> s = format_float f (nat d)
           \<and> 0 \<le> d \<and> d \<le> 2147483647"
  using assms by (cases v) (auto simp: bind_e_def split: if_splits sum.splits)

lemma format_value_zero_no_point:
  assumes "format_value v 0 = Inr s"
  shows "CHR ''.'' \<notin> set s"
proof -
  from format_value_Inr [OF assms] obtain f where "s = format_float f 0"
    by auto
  then show ?thesis
    by (simp add: format_float_zero_no_point)
qed

text \<open>
  C9. At 0 decimal places the rendering of a number has no decimal point, and
  \<open>format_power_value\<close> returns it with its trailing zeros removed, which are digits of
  the integer part: 100 gives \<open>1 kW\<close>.
\<close>

theorem format_power_value_zero_decimals:
  "(format_value v 0 = Inr s \<longrightarrow>
      CHR ''.'' \<notin> set s \<and> format_power_value v 0 = Inr (rstrip (CHR ''0'') s @ '' kW''))
   \<and> format_value (PFloat (Fin r)) 0 =
       Inr ((if r < 0 then ''-'' else '''') @ decimal (round_half_even \<bar>r\<bar>))"
proof -
  have "format_power_value v 0 = Inr (rstrip (CHR ''0'') s @ '' kW'')"
    and "CHR ''.'' \<notin> set s" if s: "format_value v 0 = Inr s"
  proof -
    from s show np: "CHR ''.'' \<notin> set s"
      by (rule format_value_zero_no_point)
    with set_rstrip [of "CHR ''0''" s] have "CHR ''.'' \<notin> set (rstrip (CHR ''0'') s)"
      by blast
    then have "rstrip (CHR ''.'') (rstrip (CHR ''0'') s) = rstrip (CHR ''0'') s"
      by (rule rstrip_notin)
    with s show "format_power_value v 0 = Inr (rstrip (CHR ''0'') s @ '' kW'')"
      by (simp add: format_power_value_def bind_e_def)
  qed
  moreover have "format_value (PFloat (Fin r)) 0 =
       Inr ((if r < 0 then ''-'' else '''') @ decimal (round_half_even \<bar>r\<bar>))"
    by (simp add: fixed_digits_zero_decimals bind_e_def)
  ultimately show ?thesis
    by blast
qed

theorem format_power_value_zero_decimals_witness:
  "format_value (PFloat (Fin 100)) 0 = Inr ''100''
   \<and> format_power_value (PFloat (Fin 100)) 0 = Inr ''1 kW''
   \<and> format_power_value (PFloat (Fin 0)) 0 = Inr '' kW''"
proof -
  have r: "format_value (PFloat (Fin 100)) 0 = Inr ''100''"
    by code_simp
  have t: "rstrip (CHR ''0'') ''100'' @ '' kW'' = ''1 kW''"
    by code_simp
  have z: "format_power_value (PFloat (Fin 0)) 0 = Inr '' kW''"
    by code_simp
  from format_power_value_zero_decimals [of "PFloat (Fin 100)" "''100''", THEN conjunct1, THEN mp, OF r]
  have "format_power_value (PFloat (Fin 100)) 0 = Inr (rstrip (CHR ''0'') ''100'' @ '' kW'')"
    by (rule conjunct2)
  then have p: "format_power_value (PFloat (Fin 100)) 0 = Inr ''1 kW''"
    by (simp only: t)
  show ?thesis
    by (intro conjI) (rule r p z)+
qed


section \<open>Numeric formatting\<close>

lemma rstrip_Cons:
  "rstrip c (y # ys) = (if y = c \<and> rstrip c ys = [] then [] else y # rstrip c ys)"
  using rstrip_append [of c "[y]" ys] rstrip_snoc [of c "[]" y]
  by (auto simp: rstrip_Nil)

text \<open>Trimming a rendering with a point: the trailing zeros go from the digits after
  the point, and the point goes when no digit is left after it.\<close>

lemma trimmed_point:
  assumes "CHR ''.'' \<notin> set a" and "CHR ''.'' \<notin> set fr"
  shows "trimmed (a @ ''.'' @ fr) =
           a @ (if rstrip (CHR ''0'') fr = [] then [] else ''.'' @ rstrip (CHR ''0'') fr)"
proof -
  have zeros: "rstrip (CHR ''0'') (a @ CHR ''.'' # fr) = a @ CHR ''.'' # rstrip (CHR ''0'') fr"
    by (simp add: rstrip_append [of _ a] rstrip_Cons)
  from assms(2) set_rstrip [of "CHR ''0''" fr]
  have np: "CHR ''.'' \<notin> set (rstrip (CHR ''0'') fr)"
    by blast
  show ?thesis
  proof (cases "rstrip (CHR ''0'') fr = []")
    case True
    with assms(1) show ?thesis
      unfolding trimmed_def using zeros
      by (simp add: rstrip_append [of _ a] rstrip_Cons rstrip_Nil rstrip_notin)
  next
    case False
    have "rstrip (CHR ''.'') ((a @ ''.'') @ rstrip (CHR ''0'') fr) = (a @ ''.'') @ rstrip (CHR ''0'') fr"
      using False np by (simp add: rstrip_append [of _ "a @ ''.''"] rstrip_notin del: append_assoc)
    with False show ?thesis
      unfolding trimmed_def using zeros by simp
  qed
qed

lemma fixed_digits_nonneg:
  assumes "0 \<le> a"
  shows "CHR ''.'' \<notin> set (decimal (round_half_even (a * 10 ^ d) div 10 ^ d))"
proof (rule decimal_no_point)
  from assms have "0 \<le> round_half_even (a * 10 ^ d)"
    by (intro round_half_even_nonneg) simp
  then show "0 \<le> round_half_even (a * 10 ^ d) div 10 ^ d"
    by (simp add: pos_imp_zdiv_nonneg_iff)
qed

text \<open>
  C5, amended. For every number that is, or converts to, a finite float, and every
  decimal-places count from 0 to 2147483647, the value is rendered in fixed-point
  notation with exactly that many digits after the point (no point for the count 0),
  rounded half to even; then the trailing zeros are stripped, then a trailing point. For
  a count above 0 this leaves the integer part, followed by a point and the digits after
  it up to the last non-zero one, if there is one. \<open>format_power_value\<close>, the line of
  the state of charge and \<open>dump_all_variables\<close> all print this trimmed rendering.
\<close>

theorem number_formatting:
  assumes "number_float v = Some (Inr (Fin r))" and "0 \<le> d" and "d \<le> 2147483647"
  shows "format_value v d = Inr (rendering r (nat d))
       \<and> rendering r (nat d) =
           (if r < 0 then ''-'' else '''')
           @ decimal (round_half_even (\<bar>r\<bar> * 10 ^ nat d) div 10 ^ nat d)
           @ (if d = 0 then '''' else ''.'' @ frac_digits (nat d) (round_half_even (\<bar>r\<bar> * 10 ^ nat d)))
       \<and> length (frac_digits (nat d) (round_half_even (\<bar>r\<bar> * 10 ^ nat d))) = nat d
       \<and> (0 < d \<longrightarrow>
            trimmed (rendering r (nat d)) =
              (if r < 0 then ''-'' else '''')
              @ decimal (round_half_even (\<bar>r\<bar> * 10 ^ nat d) div 10 ^ nat d)
              @ (if rstrip (CHR ''0'') (frac_digits (nat d) (round_half_even (\<bar>r\<bar> * 10 ^ nat d))) = []
                 then ''''
                 else ''.'' @ rstrip (CHR ''0'') (frac_digits (nat d) (round_half_even (\<bar>r\<bar> * 10 ^ nat d)))))
       \<and> format_power_value v d = Inr (trimmed (rendering r (nat d)) @ '' kW'')
       \<and> dump_value_str False v d = Inr (trimmed (rendering r (nat d)))
       \<and> (has_battery device \<longrightarrow>
            summary_lines device (solar, pv_power, home, grid_flow, battery_flow, v) d ! 6
              = Inr (''SoC: '' @ trimmed (rendering r (nat d)) @ ''%''))"
proof -
  let ?m = "round_half_even (\<bar>r\<bar> * 10 ^ nat d)"
  let ?sign = "if r < 0 then ''-'' else ''''"
  from assms have fmt: "format_value v d = Inr (rendering r (nat d))"
    by (simp add: format_value_number rendering_def)
  have shape: "rendering r (nat d) =
      ?sign @ decimal (?m div 10 ^ nat d) @ (if d = 0 then '''' else ''.'' @ frac_digits (nat d) ?m)"
    using assms(2) by (simp add: rendering_def fixed_digits_def Let_def)
  have len: "length (frac_digits (nat d) ?m) = nat d"
    by (rule length_frac_digits)
  have trim: "trimmed (rendering r (nat d)) =
      ?sign @ decimal (?m div 10 ^ nat d)
      @ (if rstrip (CHR ''0'') (frac_digits (nat d) ?m) = [] then ''''
         else ''.'' @ rstrip (CHR ''0'') (frac_digits (nat d) ?m))" if "0 < d"
  proof -
    have "CHR ''.'' \<notin> set (decimal (?m div 10 ^ nat d))"
      by (rule fixed_digits_nonneg) simp
    then have a: "CHR ''.'' \<notin> set (?sign @ decimal (?m div 10 ^ nat d))"
      by simp
    from that have "rendering r (nat d) =
        (?sign @ decimal (?m div 10 ^ nat d)) @ ''.'' @ frac_digits (nat d) ?m"
      by (simp add: shape)
    then show ?thesis
      using trimmed_point [OF a frac_digits_no_point, of "nat d" ?m] by simp
  qed
  have power: "format_power_value v d = Inr (trimmed (rendering r (nat d)) @ '' kW'')"
    by (simp add: format_power_value_def fmt bind_e_def trimmed_def)
  have dump: "dump_value_str False v d = Inr (trimmed (rendering r (nat d)))"
    using assms(1) fmt by (cases v) (simp_all add: bind_e_def trimmed_def)
  have soc: "summary_lines device (solar, pv_power, home, grid_flow, battery_flow, v) d ! 6
      = Inr (''SoC: '' @ trimmed (rendering r (nat d)) @ ''%'')" if "has_battery device"
    using that by (simp add: summary_lines_def fmt bind_e_def trimmed_def)
  show ?thesis
    by (intro conjI impI) (rule fmt shape len power dump | erule trim soc)+
qed

text \<open>The examples: 1.50, 2.00 and the float 1.234, at 2 decimals.\<close>

theorem number_formatting_witness:
  "number_float (PFloat (Fin (3 / 2))) = Some (Inr (Fin (3 / 2))) \<and> (0::int) \<le> 2
   \<and> (2::int) \<le> 2147483647
   \<and> format_value (PFloat (Fin (3 / 2))) 2 = Inr ''1.50''
   \<and> format_power_value (PFloat (Fin (3 / 2))) 2 = Inr ''1.5 kW''
   \<and> format_power_value (PFloat (Fin 2)) 2 = Inr ''2 kW''
   \<and> format_power_value (PFloat (Fin (694680242521899 / 562949953421312))) 2 = Inr ''1.23 kW''
   \<and> dump_value_str False (PFloat (Fin (3 / 2))) 2 = Inr ''1.5''
   \<and> summary_lines home_device (PInt 0, PInt 0, PInt 0, PInt 0, PInt 0, PFloat (Fin (3 / 2))) 2 ! 6
       = Inr ''SoC: 1.5%''"
proof -
  have n: "number_float (PFloat (Fin (3 / 2))) = Some (Inr (Fin (3 / 2)))"
    by simp
  have lo: "(0::int) \<le> 2" and hi: "(2::int) \<le> 2147483647"
    by simp_all
  have b: "has_battery home_device"
    by (simp add: home_device_def)
  note t = number_formatting [OF n lo hi, of home_device "PInt 0" "PInt 0" "PInt 0" "PInt 0" "PInt 0"]
  have r: "rendering (3 / 2) (nat 2) = ''1.50''"
    by code_simp
  have tr: "trimmed (rendering (3 / 2) (nat 2)) = ''1.5''"
    by code_simp
  have f: "format_value (PFloat (Fin (3 / 2))) 2 = Inr ''1.50''"
    using t [THEN conjunct1] by (simp only: r)
  have p: "format_power_value (PFloat (Fin (3 / 2))) 2 = Inr ''1.5 kW''"
    using t [THEN conjunct2, THEN conjunct2, THEN conjunct2, THEN conjunct2, THEN conjunct1]
    by (simp only: tr) simp
  have p2: "format_power_value (PFloat (Fin 2)) 2 = Inr ''2 kW''"
    by code_simp
  have p3: "format_power_value (PFloat (Fin (694680242521899 / 562949953421312))) 2 = Inr ''1.23 kW''"
    by code_simp
  have dv: "dump_value_str False (PFloat (Fin (3 / 2))) 2 = Inr ''1.5''"
    using t [THEN conjunct2, THEN conjunct2, THEN conjunct2, THEN conjunct2, THEN conjunct2, THEN conjunct1]
    by (simp only: tr)
  have s: "summary_lines home_device (PInt 0, PInt 0, PInt 0, PInt 0, PInt 0, PFloat (Fin (3 / 2))) 2 ! 6
       = Inr ''SoC: 1.5%''"
    using t [THEN conjunct2, THEN conjunct2, THEN conjunct2, THEN conjunct2, THEN conjunct2,
             THEN conjunct2, THEN mp, OF b]
    by (simp only: tr) simp
  show ?thesis
    by (intro conjI) (rule n lo hi f p p2 p3 dv s)+
qed

text \<open>C5 as stated fails for a negative decimal-places count, which the option
  \<open>--decimals\<close> accepts: the format spec is then invalid and nothing is rendered. It
  also fails for a value that is not finite: an infinity is rendered without digits.\<close>

theorem number_formatting_counterexample:
  "format_power_value (PFloat (Fin (3 / 2))) (- 1) = Inl ValueError
   \<and> format_power_value (PFloat PosInf) 2 = Inr ''inf kW''"
  by code_simp


section \<open>The default summary\<close>

lemma print_all_nth:
  "print_all xs = (ls, e) \<Longrightarrow> i < length ls \<Longrightarrow> xs ! i = Inr (ls ! i)"
proof (induction xs arbitrary: ls e i)
  case Nil
  then show ?case by simp
next
  case (Cons x xs)
  show ?case
  proof (cases x)
    case (Inl err)
    with Cons.prems show ?thesis by simp
  next
    case (Inr l)
    obtain ls' e' where rest: "print_all xs = (ls', e')"
      by (cases "print_all xs")
    with Inr Cons.prems(1) have ls: "ls = l # ls'"
      by simp
    show ?thesis
    proof (cases i)
      case 0
      with Inr ls show ?thesis by simp
    next
      case (Suc j)
      with Cons.prems(2) ls have "j < length ls'"
        by simp
      with rest have "xs ! j = Inr (ls' ! j)"
        by (rule Cons.IH)
      with Suc ls show ?thesis by simp
    qed
  qed
qed

lemma print_all_length: "print_all xs = (ls, e) \<Longrightarrow> length ls \<le> length xs"
proof (induction xs arbitrary: ls e)
  case Nil
  then show ?case by simp
next
  case (Cons x xs)
  show ?case
  proof (cases x)
    case (Inl err)
    with Cons.prems show ?thesis by simp
  next
    case (Inr l)
    obtain ls' e' where rest: "print_all xs = (ls', e')"
      by (cases "print_all xs")
    with Inr Cons.prems have "ls = l # ls'"
      by simp
    with Cons.IH [OF rest] show ?thesis by simp
  qed
qed

lemma bind_e_Inr: "bind_e m f = Inr y \<Longrightarrow> \<exists>x. m = Inr x \<and> f x = Inr y"
  by (cases m) (simp_all add: bind_e_def)

lemma flow_line_Inr:
  assumes "flow_line label positive_word other_word flow d = Inr text"
  shows "\<exists>magnitude s positive.
           py_abs flow = Inr magnitude \<and> format_power_value magnitude d = Inr s
         \<and> py_gt flow 0 = Inr positive
         \<and> text = label @ s @ '' '' @ (if positive then positive_word else other_word)"
proof -
  from assms obtain magnitude where m: "py_abs flow = Inr magnitude"
    and 1: "bind_e (format_power_value magnitude d) (\<lambda>s.
             bind_e (py_gt flow 0) (\<lambda>positive.
             Inr (label @ s @ '' '' @ (if positive then positive_word else other_word)))) = Inr text"
    unfolding flow_line_def by (blast dest: bind_e_Inr)
  from 1 obtain s where s: "format_power_value magnitude d = Inr s"
    and 2: "bind_e (py_gt flow 0) (\<lambda>positive.
             Inr (label @ s @ '' '' @ (if positive then positive_word else other_word))) = Inr text"
    by (blast dest: bind_e_Inr)
  from 2 obtain positive where p: "py_gt flow 0 = Inr positive"
    and 3: "Inr (label @ s @ '' '' @ (if positive then positive_word else other_word))
            = (Inr text :: error + string)"
    by (blast dest: bind_e_Inr)
  from 3 have "text = label @ s @ '' '' @ (if positive then positive_word else other_word)"
    by simp
  with m s p show ?thesis by blast
qed

text \<open>The flows among the values that the summary prints.\<close>

lemma summary_values_flows:
  assumes "summary_values data = Inr (solar, pv_power, home, grid_flow, battery_flow, battery_soc)"
  shows "\<exists>gc fi bc bd.
           reading data ''gridConsumptionPower'' = Inr gc \<and> reading data ''feedinPower'' = Inr fi
         \<and> py_sub gc fi = Inr grid_flow
         \<and> reading data ''batChargePower'' = Inr bc \<and> reading data ''batDischargePower'' = Inr bd
         \<and> py_sub bc bd = Inr battery_flow"
proof -
  from assms obtain s0 where "reading data ''generationPower'' = Inr s0"
    and 1: "bind_e (reading data ''pvPower'') (\<lambda>pv_power.
     bind_e (reading data ''gridConsumptionPower'') (\<lambda>grid_consumption.
     bind_e (reading data ''feedinPower'') (\<lambda>feed_in.
     bind_e (reading data ''loadsPower'') (\<lambda>home.
     bind_e (py_sub grid_consumption feed_in) (\<lambda>grid_flow.
     bind_e (reading data ''batChargePower'') (\<lambda>battery_charge.
     bind_e (reading data ''batDischargePower'') (\<lambda>battery_discharge.
     bind_e (py_sub battery_charge battery_discharge) (\<lambda>battery_flow.
     bind_e (reading data ''SoC'') (\<lambda>battery_soc.
     bind_e (zero_floor s0) (\<lambda>solar.
     bind_e (zero_floor pv_power) (\<lambda>pv_power.
     Inr (solar, pv_power, home, grid_flow, battery_flow, battery_soc))))))))))))
     = Inr (solar, pv_power, home, grid_flow, battery_flow, battery_soc)"
    unfolding summary_values_def by (blast dest: bind_e_Inr)
  from 1 obtain p0 where "reading data ''pvPower'' = Inr p0"
    and 2: "bind_e (reading data ''gridConsumptionPower'') (\<lambda>grid_consumption.
     bind_e (reading data ''feedinPower'') (\<lambda>feed_in.
     bind_e (reading data ''loadsPower'') (\<lambda>home.
     bind_e (py_sub grid_consumption feed_in) (\<lambda>grid_flow.
     bind_e (reading data ''batChargePower'') (\<lambda>battery_charge.
     bind_e (reading data ''batDischargePower'') (\<lambda>battery_discharge.
     bind_e (py_sub battery_charge battery_discharge) (\<lambda>battery_flow.
     bind_e (reading data ''SoC'') (\<lambda>battery_soc.
     bind_e (zero_floor s0) (\<lambda>solar.
     bind_e (zero_floor p0) (\<lambda>pv_power.
     Inr (solar, pv_power, home, grid_flow, battery_flow, battery_soc)))))))))))
     = Inr (solar, pv_power, home, grid_flow, battery_flow, battery_soc)"
    by (blast dest: bind_e_Inr)
  from 2 obtain gc where gc: "reading data ''gridConsumptionPower'' = Inr gc"
    and 3: "bind_e (reading data ''feedinPower'') (\<lambda>feed_in.
     bind_e (reading data ''loadsPower'') (\<lambda>home.
     bind_e (py_sub gc feed_in) (\<lambda>grid_flow.
     bind_e (reading data ''batChargePower'') (\<lambda>battery_charge.
     bind_e (reading data ''batDischargePower'') (\<lambda>battery_discharge.
     bind_e (py_sub battery_charge battery_discharge) (\<lambda>battery_flow.
     bind_e (reading data ''SoC'') (\<lambda>battery_soc.
     bind_e (zero_floor s0) (\<lambda>solar.
     bind_e (zero_floor p0) (\<lambda>pv_power.
     Inr (solar, pv_power, home, grid_flow, battery_flow, battery_soc))))))))))
     = Inr (solar, pv_power, home, grid_flow, battery_flow, battery_soc)"
    by (blast dest: bind_e_Inr)
  from 3 obtain fi where fi: "reading data ''feedinPower'' = Inr fi"
    and 4: "bind_e (reading data ''loadsPower'') (\<lambda>home.
     bind_e (py_sub gc fi) (\<lambda>grid_flow.
     bind_e (reading data ''batChargePower'') (\<lambda>battery_charge.
     bind_e (reading data ''batDischargePower'') (\<lambda>battery_discharge.
     bind_e (py_sub battery_charge battery_discharge) (\<lambda>battery_flow.
     bind_e (reading data ''SoC'') (\<lambda>battery_soc.
     bind_e (zero_floor s0) (\<lambda>solar.
     bind_e (zero_floor p0) (\<lambda>pv_power.
     Inr (solar, pv_power, home, grid_flow, battery_flow, battery_soc)))))))))
     = Inr (solar, pv_power, home, grid_flow, battery_flow, battery_soc)"
    by (blast dest: bind_e_Inr)
  from 4 obtain h0 where "reading data ''loadsPower'' = Inr h0"
    and 5: "bind_e (py_sub gc fi) (\<lambda>grid_flow.
     bind_e (reading data ''batChargePower'') (\<lambda>battery_charge.
     bind_e (reading data ''batDischargePower'') (\<lambda>battery_discharge.
     bind_e (py_sub battery_charge battery_discharge) (\<lambda>battery_flow.
     bind_e (reading data ''SoC'') (\<lambda>battery_soc.
     bind_e (zero_floor s0) (\<lambda>solar.
     bind_e (zero_floor p0) (\<lambda>pv_power.
     Inr (solar, pv_power, h0, grid_flow, battery_flow, battery_soc))))))))
     = Inr (solar, pv_power, home, grid_flow, battery_flow, battery_soc)"
    by (blast dest: bind_e_Inr)
  from 5 obtain gf where gf: "py_sub gc fi = Inr gf"
    and 6: "bind_e (reading data ''batChargePower'') (\<lambda>battery_charge.
     bind_e (reading data ''batDischargePower'') (\<lambda>battery_discharge.
     bind_e (py_sub battery_charge battery_discharge) (\<lambda>battery_flow.
     bind_e (reading data ''SoC'') (\<lambda>battery_soc.
     bind_e (zero_floor s0) (\<lambda>solar.
     bind_e (zero_floor p0) (\<lambda>pv_power.
     Inr (solar, pv_power, h0, gf, battery_flow, battery_soc)))))))
     = Inr (solar, pv_power, home, grid_flow, battery_flow, battery_soc)"
    by (blast dest: bind_e_Inr)
  from 6 obtain bc where bc: "reading data ''batChargePower'' = Inr bc"
    and 7: "bind_e (reading data ''batDischargePower'') (\<lambda>battery_discharge.
     bind_e (py_sub bc battery_discharge) (\<lambda>battery_flow.
     bind_e (reading data ''SoC'') (\<lambda>battery_soc.
     bind_e (zero_floor s0) (\<lambda>solar.
     bind_e (zero_floor p0) (\<lambda>pv_power.
     Inr (solar, pv_power, h0, gf, battery_flow, battery_soc))))))
     = Inr (solar, pv_power, home, grid_flow, battery_flow, battery_soc)"
    by (blast dest: bind_e_Inr)
  from 7 obtain bd where bd: "reading data ''batDischargePower'' = Inr bd"
    and 8: "bind_e (py_sub bc bd) (\<lambda>battery_flow.
     bind_e (reading data ''SoC'') (\<lambda>battery_soc.
     bind_e (zero_floor s0) (\<lambda>solar.
     bind_e (zero_floor p0) (\<lambda>pv_power.
     Inr (solar, pv_power, h0, gf, battery_flow, battery_soc)))))
     = Inr (solar, pv_power, home, grid_flow, battery_flow, battery_soc)"
    by (blast dest: bind_e_Inr)
  from 8 obtain bf where bf: "py_sub bc bd = Inr bf"
    and 9: "bind_e (reading data ''SoC'') (\<lambda>battery_soc.
     bind_e (zero_floor s0) (\<lambda>solar.
     bind_e (zero_floor p0) (\<lambda>pv_power.
     Inr (solar, pv_power, h0, gf, bf, battery_soc))))
     = Inr (solar, pv_power, home, grid_flow, battery_flow, battery_soc)"
    by (blast dest: bind_e_Inr)
  from 9 obtain c0 where "reading data ''SoC'' = Inr c0"
    and 10: "bind_e (zero_floor s0) (\<lambda>solar.
     bind_e (zero_floor p0) (\<lambda>pv_power.
     Inr (solar, pv_power, h0, gf, bf, c0)))
     = Inr (solar, pv_power, home, grid_flow, battery_flow, battery_soc)"
    by (blast dest: bind_e_Inr)
  from 10 obtain s1 where "zero_floor s0 = Inr s1"
    and 11: "bind_e (zero_floor p0) (\<lambda>pv_power. Inr (s1, pv_power, h0, gf, bf, c0))
     = Inr (solar, pv_power, home, grid_flow, battery_flow, battery_soc)"
    by (blast dest: bind_e_Inr)
  from 11 obtain p1 where "zero_floor p0 = Inr p1"
    and 12: "Inr (s1, p1, h0, gf, bf, c0)
     = (Inr (solar, pv_power, home, grid_flow, battery_flow, battery_soc)
         :: error + (pyval \<times> pyval \<times> pyval \<times> pyval \<times> pyval \<times> pyval))"
    by (blast dest: bind_e_Inr)
  from 12 have "gf = grid_flow" and "bf = battery_flow"
    by simp_all
  with gc fi gf bc bd bf show ?thesis
    by blast
qed

text \<open>
  C6. Whenever the default summary prints its Grid line, the flow is what \<open>-\<close> gives
  for the grid-consumption reading and the feed-in reading, the line shows the absolute
  value of the flow as \<open>format_power_value\<close> renders it, and the word after it is
  \<open>import\<close> when the flow is greater than 0 and \<open>export\<close> otherwise. The same holds
  for the Battery line with the charge and discharge readings and the words
  \<open>charging\<close> and \<open>discharging\<close>. The lines are printed whenever the eight readings
  are numeric and the decimal-places count is between 0 and 2147483647 (the Battery line
  for a device with a battery).
\<close>

theorem flow_lines:
  assumes "default_summary device data d = (lines, err)"
  shows "(4 < length lines \<longrightarrow>
          (\<exists>gc fi flow magnitude s positive.
             reading data ''gridConsumptionPower'' = Inr gc \<and> reading data ''feedinPower'' = Inr fi
           \<and> py_sub gc fi = Inr flow \<and> py_abs flow = Inr magnitude
           \<and> format_power_value magnitude d = Inr s \<and> py_gt flow 0 = Inr positive
           \<and> lines ! 4 = ''Grid: '' @ s @ '' '' @ (if positive then ''import'' else ''export'')))
       \<and> (5 < length lines \<longrightarrow>
          (\<exists>bc bd flow magnitude s positive.
             reading data ''batChargePower'' = Inr bc \<and> reading data ''batDischargePower'' = Inr bd
           \<and> py_sub bc bd = Inr flow \<and> py_abs flow = Inr magnitude
           \<and> format_power_value magnitude d = Inr s \<and> py_gt flow 0 = Inr positive
           \<and> lines ! 5 = ''Battery: '' @ s @ '' '' @ (if positive then ''charging'' else ''discharging'')))"
proof (cases "summary_values data")
  case (Inl e)
  with assms have "lines = []"
    by (simp add: default_summary_def)
  then show ?thesis by simp
next
  case (Inr vals)
  obtain solar pv_power home grid_flow battery_flow battery_soc
    where vals: "vals = (solar, pv_power, home, grid_flow, battery_flow, battery_soc)"
    by (cases vals)
  from Inr assms have printed: "print_all (summary_lines device vals d) = (lines, err)"
    by (simp add: default_summary_def)
  from Inr vals obtain gc fi bc bd
    where gc: "reading data ''gridConsumptionPower'' = Inr gc"
      and fi: "reading data ''feedinPower'' = Inr fi"
      and gf: "py_sub gc fi = Inr grid_flow"
      and bc: "reading data ''batChargePower'' = Inr bc"
      and bd: "reading data ''batDischargePower'' = Inr bd"
      and bf: "py_sub bc bd = Inr battery_flow"
    using summary_values_flows by blast
  have grid: "\<exists>magnitude s positive.
       py_abs grid_flow = Inr magnitude \<and> format_power_value magnitude d = Inr s
     \<and> py_gt grid_flow 0 = Inr positive
     \<and> lines ! 4 = ''Grid: '' @ s @ '' '' @ (if positive then ''import'' else ''export'')"
    if "4 < length lines"
  proof -
    from printed that have "summary_lines device vals d ! 4 = Inr (lines ! 4)"
      by (rule print_all_nth)
    then have "flow_line ''Grid: '' ''import'' ''export'' grid_flow d = Inr (lines ! 4)"
      by (simp add: summary_lines_def vals)
    then show ?thesis
      by (rule flow_line_Inr)
  qed
  have battery: "\<exists>magnitude s positive.
       py_abs battery_flow = Inr magnitude \<and> format_power_value magnitude d = Inr s
     \<and> py_gt battery_flow 0 = Inr positive
     \<and> lines ! 5 = ''Battery: '' @ s @ '' '' @ (if positive then ''charging'' else ''discharging'')"
    if "5 < length lines"
  proof -
    from printed have "length lines \<le> length (summary_lines device vals d)"
      by (rule print_all_length)
    with that have b: "has_battery device"
      by (cases "has_battery device") (simp_all add: summary_lines_def vals)
    from printed that have "summary_lines device vals d ! 5 = Inr (lines ! 5)"
      by (rule print_all_nth)
    with b have "flow_line ''Battery: '' ''charging'' ''discharging'' battery_flow d = Inr (lines ! 5)"
      by (simp add: summary_lines_def vals)
    then show ?thesis
      by (rule flow_line_Inr)
  qed
  from gc fi gf grid bc bd bf battery show ?thesis
    by blast
qed


end
